theory Spec2Isabelle
  imports Main "HOL-Library.Multiset"
begin

section \<open>The films table, the image bucket and the trace of collaborator calls\<close>

text \<open>
  The service keeps no state of its own: every handler of \<^verbatim>\<open>index.js\<close> works on the
  \<^verbatim>\<open>films\<close> table (through \<^verbatim>\<open>pool.query\<close>) and on the bucket \<^verbatim>\<open>film-images\<close> (through
  the storage client). A row of the table has the columns the SQL text names. The type of
  the \<^verbatim>\<open>id\<close> column is not fixed by the handlers, which only compare it for equality; it
  is a natural number here.
\<close>

record film =
  film_id :: nat
  name :: string
  image_url :: string
  user_id :: string
  created_at :: nat

text \<open>A row of the list query: \<^verbatim>\<open>id, name, image_url AS "imageUrl", (user_id = $1) AS mine\<close>.\<close>

record film_view =
  view_id :: nat
  view_name :: string
  imageUrl :: string
  mine :: bool

text \<open>The file that multer puts in \<^verbatim>\<open>req.file\<close>.\<close>

record upload_file =
  originalname :: string
  buffer :: string
  mimetype :: string

text \<open>An object of the bucket: the bytes and the content type given at upload.\<close>

record stored_object =
  content :: string
  contentType :: string

text \<open>The SQL statements the handlers send, with their parameters in the order of the text.\<close>

datatype sql =
    SelectAll string
  | SelectImageUrl nat string
  | InsertFilm string string string
  | UpdateName string nat string
  | UpdateNameImage string string nat string
  | DeleteFilm nat string

text \<open>
  How a collaborator call ends is decided outside the handlers. A \<^verbatim>\<open>pool.query\<close> promise
  is fulfilled or rejected. A call of the storage client has three ends, which the
  handlers tell apart: \<^verbatim>\<open>upload\<close> is awaited inside \<^verbatim>\<open>try\<close> (a rejection is caught) and
  its result is destructured into \<^verbatim>\<open>{ error: uploadError }\<close> (an error may come back in
  the fulfilled result). \<^verbatim>\<open>remove\<close> is a call of the same client, with a result of the same
  shape (\<^verbatim>\<open>remove([key]) -> ok|error\<close> in the collaborator contract), so it has the same
  three ends.

  A call that fails leaves the table and the bucket as they were. The trace \<open>log\<close> keeps
  every call a handler makes, in order, with its end; it is what the ordering properties
  are stated on. The \<^verbatim>\<open>console.error\<close> lines of the catch blocks are not part of the model.
\<close>

datatype db_outcome = DbOk | DbReject

datatype store_outcome = StOk | StError | StReject

datatype event =
    Query sql db_outcome
  | Upload string store_outcome
  | Remove string store_outcome

record world =
  films :: "film list"
  bucket :: "string \<rightharpoonup> stored_object"
  log :: "event list"

text \<open>
  What a request meets outside the handler: the clock read by \<^verbatim>\<open>Date.now()\<close>, the end of
  each collaborator call, the values the table assigns to a new row, and the address the
  storage client gives for a key.
\<close>

record env =
  now :: nat
  select_out :: db_outcome
  insert_out :: db_outcome
  update_out :: db_outcome
  delete_out :: db_outcome
  upload_out :: store_outcome
  remove_out :: store_outcome
  new_id :: nat
  new_created_at :: nat
  getPublicUrl :: "string \<Rightarrow> string"

text \<open>
  What a request brings to a route, after the global middleware \<^verbatim>\<open>cors()\<close> and
  \<^verbatim>\<open>express.json()\<close> let it through. Of the body the handlers read only the property
  \<^verbatim>\<open>name\<close>. Either \<^verbatim>\<open>req.body\<close> is undefined (no parser took the body, and the parser leaves
  it undefined, as express 5 does); or it is an object that \<^verbatim>\<open>express.json()\<close> left, with or
  without a \<^verbatim>\<open>name\<close> (the empty object where express 4 found nothing to parse); or the body
  is a multipart form, not parsed yet, with or without a text field \<^verbatim>\<open>name\<close> and with its
  file parts in order, each under its field name.
\<close>

datatype payload =
    NoBody
  | JsonBody "string option"
  | FormData "string option" "(string \<times> upload_file) list"

record request =
  authorization :: "string option"
  params_id :: nat
  payload :: payload

text \<open>
  \<^verbatim>\<open>req.body\<close> as a handler finds it: undefined, or an object of which \<^verbatim>\<open>name\<close> is read.
\<close>

datatype req_body = Undefined | Object "string option"

text \<open>
  How the middleware \<^verbatim>\<open>upload.single('image')\<close> of the POST and PUT routes ends: it calls
  the handler with \<^verbatim>\<open>req.body\<close> and \<^verbatim>\<open>req.file\<close>, or it passes a \<^verbatim>\<open>MulterError\<close> on and
  the handler never runs.
\<close>

datatype multer = Passed req_body "upload_file option" | MulterError

text \<open>
  The last constructor is the answer of the framework's own error handler, which is not
  JSON.
\<close>

datatype json =
    Error string
  | Rows "film_view list"
  | SuccessData string film
  | SuccessMessage string
  | ErrorPage

record response =
  status :: nat
  body :: json

text \<open>An awaited promise: its value, or the rejection that lands in \<^verbatim>\<open>catch\<close>.\<close>

datatype 'a settled = Resolved 'a | Rejected

section \<open>Strings\<close>

definition digit_char :: "nat \<Rightarrow> char" where
  "digit_char d = ''0123456789'' ! (d mod 10)"

fun string_of_nat :: "nat \<Rightarrow> string" where
  "string_of_nat n =
     (if n < 10 then [digit_char n] else string_of_nat (n div 10) @ [digit_char (n mod 10)])"

declare string_of_nat.simps [simp del]

text \<open>The template \<^verbatim>\<open>`${Date.now()}-${file.originalname}`\<close>.\<close>

definition storage_key :: "nat \<Rightarrow> string \<Rightarrow> string" where
  "storage_key t original = string_of_nat t @ ''-'' @ original"

text \<open>\<^verbatim>\<open>oldImageUrl.split('/').pop()\<close>: what follows the last slash.\<close>

definition split_pop :: "string \<Rightarrow> string" where
  "split_pop s = rev (takeWhile (\<lambda>c. c \<noteq> CHR ''/'') (rev s))"

text \<open>
  \<^verbatim>\<open>path.basename\<close> of Node on POSIX: trailing slashes are dropped, then what follows the
  last slash is returned.
\<close>

definition basename :: "string \<Rightarrow> string" where
  "basename p = split_pop (rev (dropWhile (\<lambda>c. c = CHR ''/'') (rev p)))"

text \<open>\<^verbatim>\<open>!userId\<close>, \<^verbatim>\<open>!name\<close>: an absent value and the empty string are falsy.\<close>

fun falsy :: "string option \<Rightarrow> bool" where
  "falsy None = True"
| "falsy (Some s) = (s = [])"

section \<open>The collaborators\<close>

definition record_event :: "event \<Rightarrow> world \<Rightarrow> world" where
  "record_event e w = w\<lparr>log := log w @ [e]\<rparr>"

definition owned :: "nat \<Rightarrow> string \<Rightarrow> film \<Rightarrow> bool" where
  "owned i u r = (film_id r = i \<and> user_id r = u)"

definition project :: "string \<Rightarrow> film \<Rightarrow> film_view" where
  "project u r =
     \<lparr>view_id = film_id r, view_name = name r, imageUrl = image_url r, mine = (user_id r = u)\<rparr>"

text \<open>\<^verbatim>\<open>ORDER BY created_at DESC\<close>; rows of one creation time stay in table order.\<close>

definition order_by_created_at_desc :: "film list \<Rightarrow> film list" where
  "order_by_created_at_desc rs = sort_key (\<lambda>r. - int (created_at r)) rs"

definition query_all :: "env \<Rightarrow> string \<Rightarrow> world \<Rightarrow> film_view list settled \<times> world" where
  "query_all e u w =
     (let w1 = record_event (Query (SelectAll u) (select_out e)) w in
      case select_out e of
        DbReject \<Rightarrow> (Rejected, w1)
      | DbOk \<Rightarrow> (Resolved (map (project u) (order_by_created_at_desc (films w1))), w1))"

definition query_image_url :: "env \<Rightarrow> nat \<Rightarrow> string \<Rightarrow> world \<Rightarrow> string list settled \<times> world" where
  "query_image_url e i u w =
     (let w1 = record_event (Query (SelectImageUrl i u) (select_out e)) w in
      case select_out e of
        DbReject \<Rightarrow> (Rejected, w1)
      | DbOk \<Rightarrow> (Resolved (map image_url (filter (owned i u) (films w1))), w1))"

definition query_insert ::
  "env \<Rightarrow> string \<Rightarrow> string \<Rightarrow> string \<Rightarrow> world \<Rightarrow> film list settled \<times> world" where
  "query_insert e n url u w =
     (let w1 = record_event (Query (InsertFilm n url u) (insert_out e)) w in
      case insert_out e of
        DbReject \<Rightarrow> (Rejected, w1)
      | DbOk \<Rightarrow>
          (let r = \<lparr>film_id = new_id e, name = n, image_url = url, user_id = u,
                    created_at = new_created_at e\<rparr>
           in (Resolved [r], w1\<lparr>films := films w1 @ [r]\<rparr>)))"

definition set_columns :: "string \<Rightarrow> string option \<Rightarrow> film \<Rightarrow> film" where
  "set_columns n url r =
     (case url of None \<Rightarrow> r\<lparr>name := n\<rparr> | Some v \<Rightarrow> r\<lparr>name := n, image_url := v\<rparr>)"

definition update_rows :: "nat \<Rightarrow> string \<Rightarrow> string \<Rightarrow> string option \<Rightarrow> film list \<Rightarrow> film list" where
  "update_rows i u n url rs = map (\<lambda>r. if owned i u r then set_columns n url r else r) rs"

text \<open>
  The two \<^verbatim>\<open>UPDATE ... RETURNING *\<close> statements; \<open>url\<close> is \<open>None\<close> for the one that sets
  the name only.
\<close>

definition query_update ::
  "env \<Rightarrow> nat \<Rightarrow> string \<Rightarrow> string \<Rightarrow> string option \<Rightarrow> world \<Rightarrow> film list settled \<times> world" where
  "query_update e i u n url w =
     (let stmt = (case url of None \<Rightarrow> UpdateName n i u | Some v \<Rightarrow> UpdateNameImage n v i u);
          w1 = record_event (Query stmt (update_out e)) w in
      case update_out e of
        DbReject \<Rightarrow> (Rejected, w1)
      | DbOk \<Rightarrow>
          (Resolved (map (set_columns n url) (filter (owned i u) (films w1))),
           w1\<lparr>films := update_rows i u n url (films w1)\<rparr>))"

text \<open>\<^verbatim>\<open>DELETE FROM films WHERE id = $1 AND user_id = $2\<close>; the value is \<^verbatim>\<open>rowCount\<close>.\<close>

definition query_delete :: "env \<Rightarrow> nat \<Rightarrow> string \<Rightarrow> world \<Rightarrow> nat settled \<times> world" where
  "query_delete e i u w =
     (let w1 = record_event (Query (DeleteFilm i u) (delete_out e)) w in
      case delete_out e of
        DbReject \<Rightarrow> (Rejected, w1)
      | DbOk \<Rightarrow>
          (Resolved (length (filter (owned i u) (films w1))),
           w1\<lparr>films := filter (\<lambda>r. \<not> owned i u r) (films w1)\<rparr>))"

text \<open>
  The storage client. The value of a fulfilled call says whether its \<^verbatim>\<open>error\<close> field is
  set; the bucket changes only when the call went through. Whether the store accepts a key
  that is already taken is part of how the call ends.
\<close>

definition storage_upload :: "env \<Rightarrow> string \<Rightarrow> upload_file \<Rightarrow> world \<Rightarrow> bool settled \<times> world" where
  "storage_upload e k f w =
     (let w1 = record_event (Upload k (upload_out e)) w in
      case upload_out e of
        StReject \<Rightarrow> (Rejected, w1)
      | StError \<Rightarrow> (Resolved True, w1)
      | StOk \<Rightarrow>
          (Resolved False,
           w1\<lparr>bucket := (bucket w1)(k \<mapsto> \<lparr>content = buffer f, contentType = mimetype f\<rparr>)\<rparr>))"

definition storage_remove :: "env \<Rightarrow> string \<Rightarrow> world \<Rightarrow> bool settled \<times> world" where
  "storage_remove e k w =
     (let w1 = record_event (Remove k (remove_out e)) w in
      case remove_out e of
        StReject \<Rightarrow> (Rejected, w1)
      | StError \<Rightarrow> (Resolved True, w1)
      | StOk \<Rightarrow> (Resolved False, w1\<lparr>bucket := (bucket w1)(k := None)\<rparr>))"

section \<open>The middleware of the POST and PUT routes\<close>

text \<open>
  \<^verbatim>\<open>upload.single('image')\<close> leaves a request that is not a multipart form as it is. Of a
  multipart form it makes the text fields \<^verbatim>\<open>req.body\<close> and takes at most one file, under the
  field \<^verbatim>\<open>image\<close>, as \<^verbatim>\<open>req.file\<close>; a file under another field, or a second file, is an
  unexpected file, with which the request ends in the error handler before the route's
  handler is called.
\<close>

fun upload_single :: "payload \<Rightarrow> multer" where
  "upload_single NoBody = Passed Undefined None"
| "upload_single (JsonBody n) = Passed (Object n) None"
| "upload_single (FormData n []) = Passed (Object n) None"
| "upload_single (FormData n [(fieldname, f)]) =
     (if fieldname = ''image'' then Passed (Object n) (Some f) else MulterError)"
| "upload_single (FormData n (_ # _ # _)) = MulterError"

text \<open>
  \<^verbatim>\<open>req.body.name\<close> and \<^verbatim>\<open>req.file\<close> as the handler of a POST or PUT request gets them;
  there is none when the body is undefined or the handler is not called.
\<close>

definition body_name :: "request \<Rightarrow> string option" where
  "body_name req = (case upload_single (payload req) of Passed (Object n) _ \<Rightarrow> n | _ \<Rightarrow> None)"

definition req_file :: "request \<Rightarrow> upload_file option" where
  "req_file req = (case upload_single (payload req) of Passed _ f \<Rightarrow> f | MulterError \<Rightarrow> None)"

text \<open>
  An error passed on by a middleware, and (from express 5, the only version that leaves
  \<^verbatim>\<open>req.body\<close> undefined) an error thrown by an \<^verbatim>\<open>async\<close> handler outside its \<^verbatim>\<open>try\<close>, end
  in the framework's error handler, which answers 500 for an error that carries no status
  of its own: a \<^verbatim>\<open>MulterError\<close>, or the \<^verbatim>\<open>TypeError\<close> of \<^verbatim>\<open>const { name } = req.body\<close> on an
  undefined body.
\<close>

definition final_handler :: response where
  "final_handler = \<lparr>status = 500, body = ErrorPage\<rparr>"

section \<open>The handlers\<close>

definition unauthorized :: response where
  "unauthorized = \<lparr>status = 401, body = Error ''Authorization header is required.''\<rparr>"

definition internal_error :: response where
  "internal_error = \<lparr>status = 500, body = Error ''Internal Server Error''\<rparr>"

text \<open>\<^verbatim>\<open>app.get('/films', ...)\<close>\<close>

definition list_films :: "env \<Rightarrow> request \<Rightarrow> world \<Rightarrow> response \<times> world" where
  "list_films e req w =
     (case authorization req of
        None \<Rightarrow> (unauthorized, w)
      | Some userId \<Rightarrow>
          if userId = [] then (unauthorized, w)
          else (case query_all e userId w of
                  (Rejected, w1) \<Rightarrow> (internal_error, w1)
                | (Resolved rows, w1) \<Rightarrow> (\<lparr>status = 200, body = Rows rows\<rparr>, w1)))"

text \<open>
  \<^verbatim>\<open>app.post('/films', upload.single('image'), ...)\<close>. \<open>create_handler\<close> is the handler
  from its guard on (lines 63 to 94), given \<^verbatim>\<open>userId\<close>, \<^verbatim>\<open>name\<close> and \<^verbatim>\<open>file\<close>; \<open>create_film\<close>
  is the route: the middleware, then \<^verbatim>\<open>const { name } = req.body\<close>, which throws on an
  undefined body before the guard and outside \<^verbatim>\<open>try\<close>, then the rest.
\<close>

definition missing_fields :: response where
  "missing_fields =
     \<lparr>status = 400, body = Error ''Missing required fields: authorization, name, or image.''\<rparr>"

definition create_handler ::
  "env \<Rightarrow> string option \<Rightarrow> string option \<Rightarrow> upload_file option \<Rightarrow> world
     \<Rightarrow> response \<times> world" where
  "create_handler e userId name_field file w =
     (if falsy userId \<or> falsy name_field \<or> file = None
      then (missing_fields, w)
      else
        (case (userId, name_field, file) of
           (Some userId, Some nm, Some f) \<Rightarrow>
             (let fileName = storage_key (now e) (originalname f) in
              case storage_upload e fileName f w of
                (Rejected, w1) \<Rightarrow> (internal_error, w1)
              | (Resolved True, w1) \<Rightarrow> (internal_error, w1)
              | (Resolved False, w1) \<Rightarrow>
                  (let publicUrl = getPublicUrl e fileName in
                   case query_insert e nm publicUrl userId w1 of
                     (Rejected, w2) \<Rightarrow> (internal_error, w2)
                   | (Resolved [], w2) \<Rightarrow>
                       (\<lparr>status = 201, body = SuccessMessage ''Film added successfully.''\<rparr>, w2)
                   | (Resolved (r # _), w2) \<Rightarrow>
                       (\<lparr>status = 201, body = SuccessData ''Film added successfully.'' r\<rparr>, w2)))
         | _ \<Rightarrow> (missing_fields, w)))"

definition create_film :: "env \<Rightarrow> request \<Rightarrow> world \<Rightarrow> response \<times> world" where
  "create_film e req w =
     (case upload_single (payload req) of
        MulterError \<Rightarrow> (final_handler, w)
      | Passed Undefined _ \<Rightarrow> (final_handler, w)
      | Passed (Object name_field) file \<Rightarrow>
          create_handler e (authorization req) name_field file w)"

text \<open>
  \<^verbatim>\<open>app.put('/films/:id', upload.single('image'), ...)\<close>, from the second source file, whose
  other three handlers are those of \<^verbatim>\<open>index.js\<close> line for line. \<open>update_handler\<close> is the
  handler from its first guard on (lines 103 to 158); \<open>update_film\<close> is the route: the
  middleware, then \<^verbatim>\<open>const { name } = req.body\<close> (line 101), which throws on an undefined
  body before the guards and outside \<^verbatim>\<open>try\<close>, then the rest.
\<close>

definition name_required :: response where
  "name_required = \<lparr>status = 400, body = Error ''New name is required.''\<rparr>"

definition update_not_found :: response where
  "update_not_found = \<lparr>status = 404, body = Error ''Film not found or permission denied.''\<rparr>"

text \<open>
  The part of the handler after the \<^verbatim>\<open>if (req.file)\<close> block: \<^verbatim>\<open>if (newPublicUrl)\<close> picks
  the statement (\<open>null\<close> and the empty string are falsy), the query runs, and an empty
  \<^verbatim>\<open>rows\<close> is answered with 404.
\<close>

definition run_update ::
  "env \<Rightarrow> nat \<Rightarrow> string \<Rightarrow> string \<Rightarrow> string option \<Rightarrow> world \<Rightarrow> response \<times> world" where
  "run_update e i userId nm newPublicUrl w =
     (case query_update e i userId nm (if falsy newPublicUrl then None else newPublicUrl) w of
        (Rejected, w1) \<Rightarrow> (internal_error, w1)
      | (Resolved [], w1) \<Rightarrow> (update_not_found, w1)
      | (Resolved (r # _), w1) \<Rightarrow>
          (\<lparr>status = 200, body = SuccessData ''Film updated successfully.'' r\<rparr>, w1))"

text \<open>
  The removal of the old image inside \<^verbatim>\<open>if (oldFilm.length > 0)\<close>. The call is awaited and
  its value dropped.
\<close>

definition remove_old :: "env \<Rightarrow> string list \<Rightarrow> world \<Rightarrow> unit settled \<times> world" where
  "remove_old e oldFilm w =
     (case oldFilm of
        [] \<Rightarrow> (Resolved (), w)
      | oldImageUrl # _ \<Rightarrow>
          (case storage_remove e (split_pop oldImageUrl) w of
             (Rejected, w1) \<Rightarrow> (Rejected, w1)
           | (Resolved _, w1) \<Rightarrow> (Resolved (), w1)))"

definition update_handler ::
  "env \<Rightarrow> string option \<Rightarrow> nat \<Rightarrow> string option \<Rightarrow> upload_file option \<Rightarrow> world
     \<Rightarrow> response \<times> world" where
  "update_handler e authorization_header i name_field file w =
     (case authorization_header of
        None \<Rightarrow> (unauthorized, w)
      | Some userId \<Rightarrow>
          if userId = [] then (unauthorized, w)
          else if falsy name_field then (name_required, w)
          else
            (case name_field of
               None \<Rightarrow> (name_required, w)
             | Some nm \<Rightarrow>
                 (case file of
                    None \<Rightarrow> run_update e i userId nm None w
                  | Some f \<Rightarrow>
                      (case query_image_url e i userId w of
                         (Rejected, w1) \<Rightarrow> (internal_error, w1)
                       | (Resolved oldFilm, w1) \<Rightarrow>
                           (case remove_old e oldFilm w1 of
                              (Rejected, w2) \<Rightarrow> (internal_error, w2)
                            | (Resolved _, w2) \<Rightarrow>
                                (let newFileName = storage_key (now e) (originalname f) in
                                 case storage_upload e newFileName f w2 of
                                   (Rejected, w3) \<Rightarrow> (internal_error, w3)
                                 | (Resolved True, w3) \<Rightarrow> (internal_error, w3)
                                 | (Resolved False, w3) \<Rightarrow>
                                     run_update e i userId nm
                                       (Some (getPublicUrl e newFileName)) w3))))))"

definition update_film :: "env \<Rightarrow> request \<Rightarrow> world \<Rightarrow> response \<times> world" where
  "update_film e req w =
     (case upload_single (payload req) of
        MulterError \<Rightarrow> (final_handler, w)
      | Passed Undefined _ \<Rightarrow> (final_handler, w)
      | Passed (Object name_field) file \<Rightarrow>
          update_handler e (authorization req) (params_id req) name_field file w)"

text \<open>\<^verbatim>\<open>app.delete('/films/:id', ...)\<close>\<close>

definition delete_not_found :: response where
  "delete_not_found =
     \<lparr>status = 404, body = Error ''Film not found or you do not have permission to delete it.''\<rparr>"

definition delete_film :: "env \<Rightarrow> request \<Rightarrow> world \<Rightarrow> response \<times> world" where
  "delete_film e req w =
     (case authorization req of
        None \<Rightarrow> (unauthorized, w)
      | Some userId \<Rightarrow>
          if userId = [] then (unauthorized, w)
          else
            (case query_image_url e (params_id req) userId w of
               (Rejected, w1) \<Rightarrow> (internal_error, w1)
             | (Resolved [], w1) \<Rightarrow> (delete_not_found, w1)
             | (Resolved (imgUrl # _), w1) \<Rightarrow>
                 (let fileName = basename imgUrl in
                  case query_delete e (params_id req) userId w1 of
                    (Rejected, w2) \<Rightarrow> (internal_error, w2)
                  | (Resolved rowCount, w2) \<Rightarrow>
                      if rowCount = 0 then (delete_not_found, w2)
                      else
                        (case storage_remove e fileName w2 of
                           (Rejected, w3) \<Rightarrow> (internal_error, w3)
                         | (Resolved _, w3) \<Rightarrow>
                             (\<lparr>status = 200, body = SuccessMessage ''Film deleted successfully.''\<rparr>,
                              w3)))))"

section \<open>A small table to run the handlers on\<close>

text \<open>
  Three films created at the times 10, 20 and 30, the first and the last by \<open>u1\<close>, the
  second by \<open>u2\<close>, with their images in the bucket.
\<close>

definition demo_url :: "string \<Rightarrow> string" where
  "demo_url k = ''https://store.example/object/public/film-images/'' @ k"

definition demo_films :: "film list" where
  "demo_films =
     [\<lparr>film_id = 1, name = ''Alien'', image_url = demo_url ''10-alien.png'', user_id = ''u1'',
       created_at = 10\<rparr>,
      \<lparr>film_id = 2, name = ''Brazil'', image_url = demo_url ''20-brazil.png'', user_id = ''u2'',
       created_at = 20\<rparr>,
      \<lparr>film_id = 3, name = ''Casablanca'', image_url = demo_url ''30-casa.png'', user_id = ''u1'',
       created_at = 30\<rparr>]"

definition demo_world :: world where
  "demo_world =
     \<lparr>films = demo_films,
      bucket = [''10-alien.png'' \<mapsto> \<lparr>content = ''a'', contentType = ''image/png''\<rparr>,
                ''20-brazil.png'' \<mapsto> \<lparr>content = ''b'', contentType = ''image/png''\<rparr>,
                ''30-casa.png'' \<mapsto> \<lparr>content = ''c'', contentType = ''image/png''\<rparr>],
      log = []\<rparr>"

text \<open>An environment in which every collaborator call goes through.\<close>

definition demo_env :: env where
  "demo_env =
     \<lparr>now = 42, select_out = DbOk, insert_out = DbOk, update_out = DbOk, delete_out = DbOk,
      upload_out = StOk, remove_out = StOk, new_id = 4, new_created_at = 40,
      getPublicUrl = demo_url\<rparr>"

definition demo_file :: upload_file where
  "demo_file = \<lparr>originalname = ''dune.png'', buffer = ''d'', mimetype = ''image/png''\<rparr>"

text \<open>
  A request of caller \<open>u\<close> on the film \<open>i\<close>: a multipart form with an optional name and an
  optional file under the field \<^verbatim>\<open>image\<close>.
\<close>

definition demo_request ::
  "string \<Rightarrow> nat \<Rightarrow> string option \<Rightarrow> upload_file option \<Rightarrow> request" where
  "demo_request u i n f =
     \<lparr>authorization = Some u, params_id = i,
      payload = FormData n (case f of None \<Rightarrow> [] | Some x \<Rightarrow> [(''image'', x)])\<rparr>"

text \<open>
  Two requests that the middleware turns away: a form with its file under the field
  \<^verbatim>\<open>poster\<close>, sent without an authorization header to film 3, and the same form sent by
  \<open>u1\<close>.
\<close>

definition demo_misfiled :: "string option \<Rightarrow> request" where
  "demo_misfiled a =
     \<lparr>authorization = a, params_id = 3,
      payload = FormData (Some ''Dune'') [(''poster'', demo_file)]\<rparr>"

section \<open>Facts about the collaborators\<close>

lemma films_record_event [simp]: "films (record_event ev w) = films w"
  by (simp add: record_event_def)

lemma bucket_record_event [simp]: "bucket (record_event ev w) = bucket w"
  by (simp add: record_event_def)

lemma log_record_event [simp]: "log (record_event ev w) = log w @ [ev]"
  by (simp add: record_event_def)

lemma order_by_created_at_desc_mset: "mset (order_by_created_at_desc rs) = mset rs"
  by (simp add: order_by_created_at_desc_def)

lemma order_by_created_at_desc_sorted:
  "sorted_wrt (\<lambda>a b. created_at b \<le> created_at a) (order_by_created_at_desc rs)"
proof -
  have "sorted (map (\<lambda>r. - int (created_at r)) (order_by_created_at_desc rs))"
    unfolding order_by_created_at_desc_def by (rule sorted_sort_key)
  then show ?thesis
    by (simp add: sorted_map)
qed

section \<open>Listing\<close>

text \<open>
  C1. A list request with a non-empty caller identifier, whose query the database answers,
  is answered with status 200 and all rows of the table, whoever owns them: the rows are a
  permutation of the table, ordered by creation time descending, each projected to
  \<open>id, name, imageUrl, mine\<close>, where \<open>mine\<close> holds exactly when the row's owner is the
  caller. The table and the bucket are as before.
\<close>

theorem list_films_all_rows_newest_first:
  assumes "authorization req = Some u" and "u \<noteq> []" and "select_out e = DbOk"
  shows "fst (list_films e req w) =
           \<lparr>status = 200, body = Rows (map (project u) (order_by_created_at_desc (films w)))\<rparr>
         \<and> mset (order_by_created_at_desc (films w)) = mset (films w)
         \<and> sorted_wrt (\<lambda>a b. created_at b \<le> created_at a) (order_by_created_at_desc (films w))
         \<and> (\<forall>r. project u r =
               \<lparr>view_id = film_id r, view_name = name r, imageUrl = image_url r,
                mine = (user_id r = u)\<rparr>)
         \<and> films (snd (list_films e req w)) = films w
         \<and> bucket (snd (list_films e req w)) = bucket w"
  using assms
  by (simp add: list_films_def query_all_def project_def
      order_by_created_at_desc_mset order_by_created_at_desc_sorted)

text \<open>On the demo table the films come back in the order 30, 20, 10 of their creation times.\<close>

theorem list_films_all_rows_newest_first_witness:
  "authorization (demo_request ''u1'' 0 None None) = Some ''u1'' \<and> ''u1'' \<noteq> []
   \<and> select_out demo_env = DbOk
   \<and> fst (list_films demo_env (demo_request ''u1'' 0 None None) demo_world) =
       \<lparr>status = 200,
        body = Rows
          [\<lparr>view_id = 3, view_name = ''Casablanca'', imageUrl = demo_url ''30-casa.png'',
            mine = True\<rparr>,
           \<lparr>view_id = 2, view_name = ''Brazil'', imageUrl = demo_url ''20-brazil.png'',
            mine = False\<rparr>,
           \<lparr>view_id = 1, view_name = ''Alien'', imageUrl = demo_url ''10-alien.png'',
            mine = True\<rparr>]\<rparr>"
proof -
  have a: "authorization (demo_request ''u1'' 0 None None) = Some ''u1''"
    by (simp add: demo_request_def)
  have b: "''u1'' \<noteq> []" by simp
  have c: "select_out demo_env = DbOk" by (simp add: demo_env_def)
  have d: "map (project ''u1'') (order_by_created_at_desc (films demo_world)) =
      [\<lparr>view_id = 3, view_name = ''Casablanca'', imageUrl = demo_url ''30-casa.png'',
        mine = True\<rparr>,
       \<lparr>view_id = 2, view_name = ''Brazil'', imageUrl = demo_url ''20-brazil.png'',
        mine = False\<rparr>,
       \<lparr>view_id = 1, view_name = ''Alien'', imageUrl = demo_url ''10-alien.png'',
        mine = True\<rparr>]"
    by (simp add: demo_world_def demo_films_def order_by_created_at_desc_def project_def)
  from list_films_all_rows_newest_first [OF a b c, of demo_world]
  have "fst (list_films demo_env (demo_request ''u1'' 0 None None) demo_world) =
      \<lparr>status = 200,
       body = Rows (map (project ''u1'') (order_by_created_at_desc (films demo_world)))\<rparr>"
    by (rule conjunct1)
  with a b c d show ?thesis by simp
qed


section \<open>What gets through the middleware\<close>

lemma upload_single_name:
  assumes "body_name req = Some n"
  shows "upload_single (payload req) = Passed (Object (Some n)) (req_file req)"
proof (cases "upload_single (payload req)")
  case MulterError
  with assms show ?thesis by (simp add: body_name_def)
next
  case (Passed b f)
  with assms show ?thesis
    by (cases b) (simp_all add: body_name_def req_file_def)
qed

lemma update_film_route:
  "update_film e req w =
     (case upload_single (payload req) of
        Passed (Object nm) f \<Rightarrow>
          update_handler e (authorization req) (params_id req) (body_name req) (req_file req) w
      | _ \<Rightarrow> (final_handler, w))"
  by (simp add: update_film_def body_name_def req_file_def split: multer.splits req_body.splits)

lemma create_film_route:
  "create_film e req w =
     (case upload_single (payload req) of
        Passed (Object nm) f \<Rightarrow>
          create_handler e (authorization req) (body_name req) (req_file req) w
      | _ \<Rightarrow> (final_handler, w))"
  by (simp add: create_film_def body_name_def req_file_def split: multer.splits req_body.splits)

lemma update_film_named:
  assumes "body_name req = Some n"
  shows "update_film e req w =
           update_handler e (authorization req) (params_id req) (Some n) (req_file req) w"
  using upload_single_name [OF assms] assms by (simp add: update_film_route)

lemma create_film_named:
  assumes "body_name req = Some n"
  shows "create_film e req w = create_handler e (authorization req) (Some n) (req_file req) w"
  using upload_single_name [OF assms] assms by (simp add: create_film_route)

lemma demo_request_views:
  "authorization (demo_request u i n f) = Some u"
  "params_id (demo_request u i n f) = i"
  "body_name (demo_request u i n f) = n"
  "req_file (demo_request u i n f) = f"
  "upload_single (payload (demo_request u i n f)) = Passed (Object n) f"
  by (cases f; simp add: demo_request_def body_name_def req_file_def)+

lemma demo_misfiled_views:
  "authorization (demo_misfiled a) = a"
  "body_name (demo_misfiled a) = None"
  "req_file (demo_misfiled a) = None"
  "upload_single (payload (demo_misfiled a)) = MulterError"
  by (simp_all add: demo_misfiled_def body_name_def req_file_def)

section \<open>Requests that are refused before any collaborator is called\<close>

text \<open>
  C2, as the routes have it. A list or delete request whose authorization header is absent
  or empty is answered with status 401, and the world after it is the world before it: the
  table and the bucket are untouched and the trace of collaborator calls has no new entry.
  An update request with such a header leaves the world as it was, too, in every case. It
  is answered with 401 when the upload middleware lets it through and \<^verbatim>\<open>req.body\<close> is
  defined, so that the handler reaches its guard; a request that the middleware turns away
  (a file under another field than \<^verbatim>\<open>image\<close>, or a second file) is answered with 500 by the
  error handler and never reaches the guard.
\<close>

theorem missing_authorization_refused:
  assumes "falsy (authorization req)"
  shows "list_films e req w =
           (\<lparr>status = 401, body = Error ''Authorization header is required.''\<rparr>, w)
       \<and> delete_film e req w =
           (\<lparr>status = 401, body = Error ''Authorization header is required.''\<rparr>, w)
       \<and> snd (update_film e req w) = w
       \<and> (\<forall>n f. upload_single (payload req) = Passed (Object n) f \<longrightarrow>
             fst (update_film e req w) =
               \<lparr>status = 401, body = Error ''Authorization header is required.''\<rparr>)
       \<and> (upload_single (payload req) = MulterError \<longrightarrow>
             fst (update_film e req w) = \<lparr>status = 500, body = ErrorPage\<rparr>)"
proof -
  from assms have guard: "update_handler e (authorization req) i n f w = (unauthorized, w)"
    for i n f
    by (cases "authorization req") (simp_all add: update_handler_def)
  have a: "list_films e req w =
      (\<lparr>status = 401, body = Error ''Authorization header is required.''\<rparr>, w)"
    using assms by (cases "authorization req") (simp_all add: list_films_def unauthorized_def)
  have b: "delete_film e req w =
      (\<lparr>status = 401, body = Error ''Authorization header is required.''\<rparr>, w)"
    using assms by (cases "authorization req") (simp_all add: delete_film_def unauthorized_def)
  have c: "snd (update_film e req w) = w"
    by (simp add: update_film_def guard split: multer.splits req_body.splits)
  have d: "\<forall>n f. upload_single (payload req) = Passed (Object n) f \<longrightarrow>
             fst (update_film e req w) =
               \<lparr>status = 401, body = Error ''Authorization header is required.''\<rparr>"
    by (simp add: update_film_def guard unauthorized_def)
  have f: "upload_single (payload req) = MulterError \<longrightarrow>
             fst (update_film e req w) = \<lparr>status = 500, body = ErrorPage\<rparr>"
    by (simp add: update_film_def final_handler_def)
  from a b c d f show ?thesis by (intro conjI)
qed

text \<open>
  An empty header on a well-formed form: 401 from all three routes. No header on the form
  with the misfiled image: 500 from the update route, and the world as it was.
\<close>

theorem missing_authorization_refused_witness:
  "falsy (authorization (demo_request [] 3 (Some ''Aliens'') (Some demo_file)))
   \<and> falsy (authorization (demo_misfiled None))
   \<and> list_films demo_env (demo_request [] 3 (Some ''Aliens'') (Some demo_file)) demo_world =
       (\<lparr>status = 401, body = Error ''Authorization header is required.''\<rparr>, demo_world)
   \<and> delete_film demo_env (demo_request [] 3 (Some ''Aliens'') (Some demo_file)) demo_world =
       (\<lparr>status = 401, body = Error ''Authorization header is required.''\<rparr>, demo_world)
   \<and> update_film demo_env (demo_request [] 3 (Some ''Aliens'') (Some demo_file)) demo_world =
       (\<lparr>status = 401, body = Error ''Authorization header is required.''\<rparr>, demo_world)
   \<and> update_film demo_env (demo_misfiled None) demo_world =
       (\<lparr>status = 500, body = ErrorPage\<rparr>, demo_world)"
proof -
  let ?req = "demo_request [] 3 (Some ''Aliens'') (Some demo_file)"
  have a: "falsy (authorization ?req)" by (simp add: demo_request_views)
  have b: "falsy (authorization (demo_misfiled None))" by (simp add: demo_misfiled_views)
  from missing_authorization_refused [OF a, of demo_env demo_world]
    missing_authorization_refused [OF b, of demo_env demo_world] a b
  show ?thesis
    by (simp add: demo_request_views demo_misfiled_views prod_eq_iff)
qed

text \<open>
  The specification promises 401 for every update request without a header. The form with
  the misfiled image, sent without a header, is answered with 500.
\<close>

theorem missing_authorization_counterexample:
  "falsy (authorization (demo_misfiled None))
   \<and> status (fst (update_film demo_env (demo_misfiled None) demo_world)) = 500
   \<and> status (fst (update_film demo_env (demo_misfiled None) demo_world)) \<noteq> 401"
  by (simp add: update_film_def demo_misfiled_views final_handler_def)

text \<open>
  C3, as the route has it. A create request in which the caller identifier, the name or the
  image file (a file under the field \<^verbatim>\<open>image\<close>) is missing leaves the world as it was: no
  upload and no insert is made. It is answered with 400 when the upload middleware lets it
  through and \<^verbatim>\<open>req.body\<close> is defined, so that the handler reaches its guard; a request that
  the middleware turns away is answered with 500 by the error handler.
\<close>

theorem create_missing_field_refused:
  assumes "falsy (authorization req) \<or> falsy (body_name req) \<or> req_file req = None"
  shows "snd (create_film e req w) = w
       \<and> (\<forall>n f. upload_single (payload req) = Passed (Object n) f \<longrightarrow>
             fst (create_film e req w) =
               \<lparr>status = 400,
                body = Error ''Missing required fields: authorization, name, or image.''\<rparr>)
       \<and> (upload_single (payload req) = MulterError \<longrightarrow>
             fst (create_film e req w) = \<lparr>status = 500, body = ErrorPage\<rparr>)"
proof -
  have guard: "create_handler e (authorization req) (body_name req) (req_file req) w =
      (missing_fields, w)"
    using assms by (simp add: create_handler_def)
  have a: "snd (create_film e req w) = w"
    by (simp add: create_film_route guard split: multer.splits req_body.splits)
  have b: "\<forall>n f. upload_single (payload req) = Passed (Object n) f \<longrightarrow>
             fst (create_film e req w) =
               \<lparr>status = 400,
                body = Error ''Missing required fields: authorization, name, or image.''\<rparr>"
    by (simp add: create_film_route guard missing_fields_def)
  have c: "upload_single (payload req) = MulterError \<longrightarrow>
             fst (create_film e req w) = \<lparr>status = 500, body = ErrorPage\<rparr>"
    by (simp add: create_film_route final_handler_def)
  from a b c show ?thesis by (intro conjI)
qed

text \<open>
  A form with a name and no file: 400. The form with the misfiled image, sent by \<open>u1\<close>:
  500. Neither changes the world.
\<close>

theorem create_missing_field_refused_witness:
  "req_file (demo_request ''u1'' 0 (Some ''Dune'') None) = None
   \<and> req_file (demo_misfiled (Some ''u1'')) = None
   \<and> create_film demo_env (demo_request ''u1'' 0 (Some ''Dune'') None) demo_world =
       (\<lparr>status = 400,
         body = Error ''Missing required fields: authorization, name, or image.''\<rparr>,
        demo_world)
   \<and> create_film demo_env (demo_misfiled (Some ''u1'')) demo_world =
       (\<lparr>status = 500, body = ErrorPage\<rparr>, demo_world)"
proof -
  let ?req = "demo_request ''u1'' 0 (Some ''Dune'') None"
  have a: "falsy (authorization ?req) \<or> falsy (body_name ?req) \<or> req_file ?req = None"
    by (simp add: demo_request_views)
  have b: "falsy (authorization (demo_misfiled (Some ''u1'')))
      \<or> falsy (body_name (demo_misfiled (Some ''u1'')))
      \<or> req_file (demo_misfiled (Some ''u1'')) = None"
    by (simp add: demo_misfiled_views)
  from create_missing_field_refused [OF a, of demo_env demo_world]
    create_missing_field_refused [OF b, of demo_env demo_world]
  show ?thesis
    by (simp add: demo_request_views demo_misfiled_views prod_eq_iff)
qed

text \<open>
  The specification promises 400 whenever the image file is missing. The form of \<open>u1\<close>
  with a name and its image under the field \<^verbatim>\<open>poster\<close> has no image file, and is answered
  with 500.
\<close>

theorem create_missing_field_counterexample:
  "req_file (demo_misfiled (Some ''u1'')) = None
   \<and> status (fst (create_film demo_env (demo_misfiled (Some ''u1'')) demo_world)) = 500
   \<and> status (fst (create_film demo_env (demo_misfiled (Some ''u1'')) demo_world)) \<noteq> 400"
  by (simp add: create_film_def demo_misfiled_views final_handler_def)

section \<open>Creating\<close>

lemma demo_key: "storage_key 42 ''dune.png'' = ''42-dune.png''"
  by code_simp

text \<open>
  C4. In a create request that passes the guard, the upload is the first collaborator call
  and the insert, when it is made, the second. When the upload fails (an error in its
  result, or a rejection) the answer is 500, no insert is attempted and the table and the
  bucket are as before. When the upload goes through, the insert carries the supplied
  name, the public address of the uploaded key and the caller identifier; when the insert
  goes through as well, the answer is 201 with the new row as data, and the table is the old
  one followed by that row. A rejected insert is answered with 500 and leaves the table as
  it was.
\<close>

theorem create_uploads_then_inserts:
  assumes "authorization req = Some u" and "u \<noteq> []"
    and "body_name req = Some n" and "n \<noteq> []"
    and "req_file req = Some f"
    and "k = storage_key (now e) (originalname f)"
    and "r = \<lparr>film_id = new_id e, name = n, image_url = getPublicUrl e k, user_id = u,
              created_at = new_created_at e\<rparr>"
    and "w' = snd (create_film e req w)"
  shows "(upload_out e \<noteq> StOk \<longrightarrow>
            fst (create_film e req w) = \<lparr>status = 500, body = Error ''Internal Server Error''\<rparr>
            \<and> log w' = log w @ [Upload k (upload_out e)]
            \<and> films w' = films w \<and> bucket w' = bucket w)
       \<and> (upload_out e = StOk \<longrightarrow>
            log w' = log w @ [Upload k StOk, Query (InsertFilm n (getPublicUrl e k) u) (insert_out e)]
            \<and> bucket w' = (bucket w)(k \<mapsto> \<lparr>content = buffer f, contentType = mimetype f\<rparr>))
       \<and> (upload_out e = StOk \<and> insert_out e = DbReject \<longrightarrow>
            fst (create_film e req w) = \<lparr>status = 500, body = Error ''Internal Server Error''\<rparr>
            \<and> films w' = films w)
       \<and> (upload_out e = StOk \<and> insert_out e = DbOk \<longrightarrow>
            fst (create_film e req w) =
              \<lparr>status = 201, body = SuccessData ''Film added successfully.'' r\<rparr>
            \<and> films w' = films w @ [r])"
proof -
  have "create_film e req w = create_handler e (Some u) (Some n) (Some f) w"
    using assms(1,5) by (simp add: create_film_named [OF assms(3)])
  with assms(2,4,6-8) show ?thesis
    by (cases "upload_out e"; cases "insert_out e")
       (simp_all add: create_handler_def storage_upload_def query_insert_def record_event_def
          internal_error_def Let_def)
qed

theorem create_uploads_then_inserts_witness:
  "fst (create_film demo_env (demo_request ''u1'' 0 (Some ''Dune'') (Some demo_file)) demo_world) =
     \<lparr>status = 201,
      body = SuccessData ''Film added successfully.''
        \<lparr>film_id = 4, name = ''Dune'', image_url = demo_url ''42-dune.png'', user_id = ''u1'',
         created_at = 40\<rparr>\<rparr>
   \<and> films (snd (create_film demo_env (demo_request ''u1'' 0 (Some ''Dune'') (Some demo_file))
        demo_world)) =
     demo_films @ [\<lparr>film_id = 4, name = ''Dune'', image_url = demo_url ''42-dune.png'',
        user_id = ''u1'', created_at = 40\<rparr>]
   \<and> log (snd (create_film demo_env (demo_request ''u1'' 0 (Some ''Dune'') (Some demo_file))
        demo_world)) =
     [Upload ''42-dune.png'' StOk,
      Query (InsertFilm ''Dune'' (demo_url ''42-dune.png'') ''u1'') DbOk]
   \<and> fst (create_film (demo_env\<lparr>upload_out := StError\<rparr>)
        (demo_request ''u1'' 0 (Some ''Dune'') (Some demo_file)) demo_world) =
     \<lparr>status = 500, body = Error ''Internal Server Error''\<rparr>
   \<and> films (snd (create_film (demo_env\<lparr>upload_out := StError\<rparr>)
        (demo_request ''u1'' 0 (Some ''Dune'') (Some demo_file)) demo_world)) = demo_films"
proof -
  let ?req = "demo_request ''u1'' 0 (Some ''Dune'') (Some demo_file)"
  have a: "authorization ?req = Some ''u1''" by (simp add: demo_request_views)
  have b: "''u1'' \<noteq> []" by simp
  have c: "body_name ?req = Some ''Dune''" by (simp add: demo_request_views)
  have d: "''Dune'' \<noteq> []" by simp
  have f: "req_file ?req = Some demo_file" by (simp add: demo_request_views)
  have ok: "''42-dune.png'' = storage_key (now demo_env) (originalname demo_file)"
    by (simp add: demo_env_def demo_file_def demo_key)
  have bad: "''42-dune.png'' =
      storage_key (now (demo_env\<lparr>upload_out := StError\<rparr>)) (originalname demo_file)"
    by (simp add: demo_env_def demo_file_def demo_key)
  from create_uploads_then_inserts [OF a b c d f ok refl refl, of demo_world]
    create_uploads_then_inserts [OF a b c d f bad refl refl, of demo_world]
  show ?thesis
    by (simp add: demo_env_def demo_world_def)
qed


section \<open>Updating\<close>

lemma query_image_url_films: "films (snd (query_image_url e i u w)) = films w"
  by (cases "select_out e") (simp_all add: query_image_url_def Let_def)

lemma storage_remove_films: "films (snd (storage_remove e k w)) = films w"
  by (cases "remove_out e") (simp_all add: storage_remove_def Let_def)

lemma storage_upload_films: "films (snd (storage_upload e k f w)) = films w"
  by (cases "upload_out e") (simp_all add: storage_upload_def Let_def)

lemma remove_old_films: "films (snd (remove_old e urls w)) = films w"
proof (cases urls)
  case Nil
  then show ?thesis by (simp add: remove_old_def)
next
  case (Cons url rest)
  have "films (snd (storage_remove e (split_pop url) w)) = films w"
    by (rule storage_remove_films)
  with Cons show ?thesis
    by (cases "storage_remove e (split_pop url) w") (simp add: remove_old_def split: settled.splits)
qed

lemma run_update_films:
  "films (snd (run_update e i u n url w)) =
     (if update_out e = DbOk then update_rows i u n (if falsy url then None else url) (films w)
      else films w)"
  by (cases "update_out e")
     (simp_all add: run_update_def query_update_def Let_def split: list.splits)


lemma update_handler_no_file:
  "update_handler e (Some u) i (Some n) None w =
     (if u = [] then (unauthorized, w) else if n = [] then (name_required, w)
      else run_update e i u n None w)"
  by (simp add: update_handler_def)

lemma update_handler_with_file:
  "update_handler e (Some u) i (Some n) (Some f) w =
     (if u = [] then (unauthorized, w) else if n = [] then (name_required, w)
      else
        (case query_image_url e i u w of
           (Rejected, w1) \<Rightarrow> (internal_error, w1)
         | (Resolved oldFilm, w1) \<Rightarrow>
             (case remove_old e oldFilm w1 of
                (Rejected, w2) \<Rightarrow> (internal_error, w2)
              | (Resolved _, w2) \<Rightarrow>
                  (let newFileName = storage_key (now e) (originalname f) in
                   case storage_upload e newFileName f w2 of
                     (Rejected, w3) \<Rightarrow> (internal_error, w3)
                   | (Resolved True, w3) \<Rightarrow> (internal_error, w3)
                   | (Resolved False, w3) \<Rightarrow>
                       run_update e i u n (Some (getPublicUrl e newFileName)) w3))))"
  by (simp add: update_handler_def)

text \<open>
  Whatever its arguments and the ends of the collaborator calls, the table after the
  handler is the table before it, or the table with the scoped \<^verbatim>\<open>UPDATE\<close> of the caller
  applied; without a file the statement sets the name only.
\<close>

lemma update_handler_films:
  "films (snd (update_handler e a i nm fl w)) = films w \<or>
   (\<exists>u n url. a = Some u \<and> nm = Some n \<and> (fl = None \<longrightarrow> url = None)
       \<and> films (snd (update_handler e a i nm fl w)) = update_rows i u n url (films w))"
proof (cases a)
  case None
  then show ?thesis by (simp add: update_handler_def)
next
  case (Some u)
  note auth = Some
  show ?thesis
  proof (cases nm)
    case None
    with auth show ?thesis by (simp add: update_handler_def)
  next
    case (Some n)
    note nm = Some
    show ?thesis
    proof (cases fl)
      case None
      have "films (snd (update_handler e a i nm fl w)) = films w \<or>
            films (snd (update_handler e a i nm fl w)) = update_rows i u n None (films w)"
        by (simp add: auth nm None update_handler_no_file run_update_films)
      then show ?thesis
      proof
        assume "films (snd (update_handler e a i nm fl w)) = films w"
        then show ?thesis by (rule disjI1)
      next
        assume "films (snd (update_handler e a i nm fl w)) = update_rows i u n None (films w)"
        with auth nm show ?thesis
          by (intro disjI2 exI [of _ u] exI [of _ n] exI [of _ None] conjI) simp_all
      qed
    next
      case (Some f)
      let ?k = "storage_key (now e) (originalname f)"
      let ?url = "if falsy (Some (getPublicUrl e ?k)) then None else Some (getPublicUrl e ?k)"
      note unfold = auth nm Some update_handler_with_file
      obtain b w1 where q: "query_image_url e i u w = (b, w1)"
        by (cases "query_image_url e i u w")
      have f1: "films w1 = films w"
        using query_image_url_films [of e i u w] q by simp
      have "films (snd (update_handler e a i nm fl w)) = films w \<or>
            films (snd (update_handler e a i nm fl w)) = update_rows i u n ?url (films w)"
      proof (cases b)
        case Rejected
        then show ?thesis
          by (simp add: unfold q f1)
      next
        case (Resolved urls)
        note b = Resolved
        obtain c w2 where r: "remove_old e urls w1 = (c, w2)"
          by (cases "remove_old e urls w1")
        have f2: "films w2 = films w"
          using remove_old_films [of e urls w1] r f1 by simp
        obtain d w3 where s: "storage_upload e ?k f w2 = (d, w3)"
          by (cases "storage_upload e ?k f w2")
        have f3: "films w3 = films w"
          using storage_upload_films [of e ?k f w2] s f2 by simp
        show ?thesis
        proof (cases c)
          case Rejected
          then show ?thesis
            by (simp add: unfold q b r f2)
        next
          case (Resolved x)
          note c = Resolved
          show ?thesis
          proof (cases d)
            case Rejected
            then show ?thesis
              by (simp add: unfold q b r c s f3)
          next
            case (Resolved y)
            then show ?thesis
              by (cases y) (simp_all add: unfold q b r c s f3 run_update_films)
          qed
        qed
      qed
      then show ?thesis
      proof
        assume "films (snd (update_handler e a i nm fl w)) = films w"
        then show ?thesis by (rule disjI1)
      next
        assume "films (snd (update_handler e a i nm fl w)) = update_rows i u n ?url (films w)"
        with auth nm Some show ?thesis
          by (intro disjI2 exI [of _ u] exI [of _ n] exI [of _ ?url] conjI) simp_all
      qed
    qed
  qed
qed

text \<open>The same of the route, of which the handler is the only part that calls anyone.\<close>

lemma update_film_films:
  "films (snd (update_film e req w)) = films w \<or>
   (\<exists>u n url. authorization req = Some u \<and> body_name req = Some n
       \<and> (req_file req = None \<longrightarrow> url = None)
       \<and> films (snd (update_film e req w)) = update_rows (params_id req) u n url (films w))"
proof (cases "upload_single (payload req)")
  case MulterError
  then show ?thesis by (simp add: update_film_route)
next
  case (Passed b f)
  show ?thesis
  proof (cases b)
    case Undefined
    with Passed show ?thesis by (simp add: update_film_route)
  next
    case (Object nm)
    with Passed have "update_film e req w =
        update_handler e (authorization req) (params_id req) (body_name req) (req_file req) w"
      by (simp add: update_film_route)
    then show ?thesis
      using update_handler_films
        [of e "authorization req" "params_id req" "body_name req" "req_file req" w]
      by simp
  qed
qed

lemma update_rows_frame:
  "list_all2 (\<lambda>r r'. film_id r' = film_id r \<and> user_id r' = user_id r
        \<and> created_at r' = created_at r \<and> (url = None \<longrightarrow> image_url r' = image_url r))
     rs (update_rows i u n url rs)"
  by (cases url) (simp_all add: update_rows_def set_columns_def list_all2_map2 list_all2_same)

text \<open>
  C5. Whatever the request and the ends of the collaborator calls, an update leaves the
  table with the same rows in the same places, each with its \<open>id\<close>, its owner and its
  creation time unchanged; when the request carries no file, each row keeps its image
  address too, so that nothing but names can differ.
\<close>

theorem update_keeps_identity_columns:
  "list_all2 (\<lambda>r r'. film_id r' = film_id r \<and> user_id r' = user_id r
        \<and> created_at r' = created_at r
        \<and> (req_file req = None \<longrightarrow> image_url r' = image_url r))
     (films w) (films (snd (update_film e req w)))"
proof -
  from update_film_films [of e req w] show ?thesis
  proof
    assume "films (snd (update_film e req w)) = films w"
    then show ?thesis by (simp add: list_all2_same)
  next
    assume "\<exists>u n url. authorization req = Some u \<and> body_name req = Some n
       \<and> (req_file req = None \<longrightarrow> url = None)
       \<and> films (snd (update_film e req w)) = update_rows (params_id req) u n url (films w)"
    then obtain u where "\<exists>n url. authorization req = Some u \<and> body_name req = Some n
       \<and> (req_file req = None \<longrightarrow> url = None)
       \<and> films (snd (update_film e req w)) = update_rows (params_id req) u n url (films w)" ..
    then obtain n where "\<exists>url. authorization req = Some u \<and> body_name req = Some n
       \<and> (req_file req = None \<longrightarrow> url = None)
       \<and> films (snd (update_film e req w)) = update_rows (params_id req) u n url (films w)" ..
    then obtain url where c: "authorization req = Some u \<and> body_name req = Some n
       \<and> (req_file req = None \<longrightarrow> url = None)
       \<and> films (snd (update_film e req w)) = update_rows (params_id req) u n url (films w)" ..
    from c have h: "req_file req = None \<longrightarrow> url = None" by simp
    from c have eq: "films (snd (update_film e req w)) =
        update_rows (params_id req) u n url (films w)"
      by simp
    have "list_all2 (\<lambda>r r'. film_id r' = film_id r \<and> user_id r' = user_id r
        \<and> created_at r' = created_at r \<and> (url = None \<longrightarrow> image_url r' = image_url r))
        (films w) (update_rows (params_id req) u n url (films w))"
      by (rule update_rows_frame)
    then show ?thesis
      unfolding eq by (rule list_all2_mono) (use h in simp)
  qed
qed

theorem update_keeps_identity_columns_witness:
  "req_file (demo_request ''u1'' 1 (Some ''Aliens'') None) = None
   \<and> films (snd (update_film demo_env (demo_request ''u1'' 1 (Some ''Aliens'') None) demo_world)) =
       [\<lparr>film_id = 1, name = ''Aliens'', image_url = demo_url ''10-alien.png'', user_id = ''u1'',
         created_at = 10\<rparr>,
        \<lparr>film_id = 2, name = ''Brazil'', image_url = demo_url ''20-brazil.png'', user_id = ''u2'',
         created_at = 20\<rparr>,
        \<lparr>film_id = 3, name = ''Casablanca'', image_url = demo_url ''30-casa.png'', user_id = ''u1'',
         created_at = 30\<rparr>]
   \<and> list_all2 (\<lambda>r r'. film_id r' = film_id r \<and> user_id r' = user_id r
        \<and> created_at r' = created_at r
        \<and> (req_file (demo_request ''u1'' 1 (Some ''Aliens'') None) = None
             \<longrightarrow> image_url r' = image_url r))
       (films demo_world)
       (films (snd (update_film demo_env (demo_request ''u1'' 1 (Some ''Aliens'') None) demo_world)))"
proof -
  let ?req = "demo_request ''u1'' 1 (Some ''Aliens'') None"
  have a: "req_file ?req = None" by (simp add: demo_request_views)
  have b: "films (snd (update_film demo_env ?req demo_world)) =
       [\<lparr>film_id = 1, name = ''Aliens'', image_url = demo_url ''10-alien.png'', user_id = ''u1'',
         created_at = 10\<rparr>,
        \<lparr>film_id = 2, name = ''Brazil'', image_url = demo_url ''20-brazil.png'', user_id = ''u2'',
         created_at = 20\<rparr>,
        \<lparr>film_id = 3, name = ''Casablanca'', image_url = demo_url ''30-casa.png'', user_id = ''u1'',
         created_at = 30\<rparr>]"
  proof -
    have "update_film demo_env ?req demo_world =
        update_handler demo_env (Some ''u1'') 1 (Some ''Aliens'') None demo_world"
      using update_film_named [of ?req "''Aliens''" demo_env demo_world]
      by (simp add: demo_request_views)
    then show ?thesis
      by (simp add: update_handler_no_file run_update_def query_update_def update_rows_def
          set_columns_def owned_def demo_env_def demo_world_def demo_films_def)
  qed
  from a b update_keeps_identity_columns [of ?req demo_world demo_env] show ?thesis
    by (intro conjI) assumption+
qed


subsection \<open>Targets that are absent or belong to someone else\<close>

lemma filter_owned_empty:
  assumes "\<forall>r\<in>set rs. \<not> owned i u r"
  shows "filter (owned i u) rs = []"
  using assms by (simp add: filter_empty_conv)

lemma update_rows_no_target:
  assumes "\<forall>r\<in>set rs. \<not> owned i u r"
  shows "update_rows i u n url rs = rs"
  using assms by (simp add: update_rows_def map_idI)

lemma delete_film_no_target:
  assumes "authorization req = Some u"
    and "\<forall>r\<in>set (films w). \<not> owned (params_id req) u r"
  shows "films (snd (delete_film e req w)) = films w"
    and "u \<noteq> [] \<Longrightarrow> select_out e = DbOk \<Longrightarrow> fst (delete_film e req w) = delete_not_found"
  using assms
  by (cases "select_out e"; simp add: delete_film_def query_image_url_def filter_owned_empty)+

lemma update_film_no_target_films:
  assumes "authorization req = Some u"
    and "\<forall>r\<in>set (films w). \<not> owned (params_id req) u r"
  shows "films (snd (update_film e req w)) = films w"
proof -
  from update_film_films [of e req w] show ?thesis
  proof
    assume "films (snd (update_film e req w)) = films w"
    then show ?thesis .
  next
    assume "\<exists>u n url. authorization req = Some u \<and> body_name req = Some n
       \<and> (req_file req = None \<longrightarrow> url = None)
       \<and> films (snd (update_film e req w)) = update_rows (params_id req) u n url (films w)"
    then obtain u' where "\<exists>n url. authorization req = Some u' \<and> body_name req = Some n
       \<and> (req_file req = None \<longrightarrow> url = None)
       \<and> films (snd (update_film e req w)) = update_rows (params_id req) u' n url (films w)" ..
    then obtain n where "\<exists>url. authorization req = Some u' \<and> body_name req = Some n
       \<and> (req_file req = None \<longrightarrow> url = None)
       \<and> films (snd (update_film e req w)) = update_rows (params_id req) u' n url (films w)" ..
    then obtain url where c: "authorization req = Some u' \<and> body_name req = Some n
       \<and> (req_file req = None \<longrightarrow> url = None)
       \<and> films (snd (update_film e req w)) = update_rows (params_id req) u' n url (films w)" ..
    from c assms(1) have "u' = u" by simp
    with c have "films (snd (update_film e req w)) = update_rows (params_id req) u n url (films w)"
      by simp
    with assms(2) show ?thesis by (simp add: update_rows_no_target)
  qed
qed

lemma run_update_no_target:
  assumes "\<forall>r\<in>set (films w). \<not> owned i u r" and "update_out e = DbOk"
  shows "fst (run_update e i u n url w) = update_not_found"
  using assms by (simp add: run_update_def query_update_def filter_owned_empty)

lemma update_film_no_target_response:
  assumes "authorization req = Some u" and "u \<noteq> []"
    and "body_name req = Some n" and "n \<noteq> []"
    and "\<forall>r\<in>set (films w). \<not> owned (params_id req) u r"
    and "update_out e = DbOk"
    and "req_file req \<noteq> None \<longrightarrow> select_out e = DbOk \<and> upload_out e = StOk"
  shows "fst (update_film e req w) = update_not_found"
proof (cases "req_file req")
  case None
  with assms show ?thesis
    by (simp add: update_film_named [OF assms(3)] update_handler_no_file run_update_no_target)
next
  case (Some f)
  with assms have ok: "select_out e = DbOk" "upload_out e = StOk" by simp_all
  show ?thesis
    using assms(1-6) Some ok
    by (simp add: update_film_named [OF assms(3)] update_handler_with_file query_image_url_def
        filter_owned_empty [OF assms(5)] remove_old_def storage_upload_def
        run_update_no_target Let_def)
qed

text \<open>
  C7. The caller is identified and no row of the table has both the requested \<open>id\<close> and
  the caller as owner: the row does not exist, or it belongs to someone else. Then neither
  an update nor a delete changes the table, whatever the ends of the collaborator calls.
  When the request is otherwise complete (for an update, a name reaches the handler) and
  the collaborator calls it makes go through, the answer is 404 with a fixed message, which
  does not depend on the table, so the caller cannot tell an absent row from a foreign
  one.
\<close>

theorem foreign_or_absent_target_is_404:
  assumes "authorization req = Some u" and "u \<noteq> []"
    and "\<forall>r\<in>set (films w). \<not> (film_id r = params_id req \<and> user_id r = u)"
  shows "films (snd (update_film e req w)) = films w
       \<and> films (snd (delete_film e req w)) = films w
       \<and> (select_out e = DbOk \<longrightarrow>
            fst (delete_film e req w) =
              \<lparr>status = 404,
               body = Error ''Film not found or you do not have permission to delete it.''\<rparr>)
       \<and> (\<not> falsy (body_name req) \<and> update_out e = DbOk
            \<and> (req_file req \<noteq> None \<longrightarrow> select_out e = DbOk \<and> upload_out e = StOk) \<longrightarrow>
            fst (update_film e req w) =
              \<lparr>status = 404, body = Error ''Film not found or permission denied.''\<rparr>)"
proof -
  from assms(3) have none: "\<forall>r\<in>set (films w). \<not> owned (params_id req) u r"
    by (simp add: owned_def)
  have a: "films (snd (update_film e req w)) = films w"
    using assms(1) none by (rule update_film_no_target_films)
  have b: "films (snd (delete_film e req w)) = films w"
    using assms(1) none by (rule delete_film_no_target(1))
  have c: "select_out e = DbOk \<longrightarrow> fst (delete_film e req w) =
      \<lparr>status = 404, body = Error ''Film not found or you do not have permission to delete it.''\<rparr>"
    using delete_film_no_target(2) [OF assms(1) none assms(2)]
    by (simp add: delete_not_found_def)
  have d: "\<not> falsy (body_name req) \<and> update_out e = DbOk
            \<and> (req_file req \<noteq> None \<longrightarrow> select_out e = DbOk \<and> upload_out e = StOk) \<longrightarrow>
            fst (update_film e req w) =
              \<lparr>status = 404, body = Error ''Film not found or permission denied.''\<rparr>"
  proof (cases "body_name req")
    case None
    then show ?thesis by simp
  next
    case (Some n)
    show ?thesis
    proof
      assume h: "\<not> falsy (body_name req) \<and> update_out e = DbOk
            \<and> (req_file req \<noteq> None \<longrightarrow> select_out e = DbOk \<and> upload_out e = StOk)"
      with Some have n: "n \<noteq> []" by simp
      from h have u: "update_out e = DbOk"
        and f: "req_file req \<noteq> None \<longrightarrow> select_out e = DbOk \<and> upload_out e = StOk"
        by simp_all
      from update_film_no_target_response [OF assms(1) assms(2) Some n none u f]
      show "fst (update_film e req w) =
              \<lparr>status = 404, body = Error ''Film not found or permission denied.''\<rparr>"
        by (simp add: update_not_found_def)
    qed
  qed
  from a b c d show ?thesis by (intro conjI)
qed

theorem foreign_or_absent_target_is_404_witness:
  "filter (\<lambda>r. film_id r = 3 \<and> user_id r = ''u2'') (films demo_world) = []
   \<and> filter (\<lambda>r. film_id r = 9 \<and> user_id r = ''u2'') (films demo_world) = []
   \<and> fst (update_film demo_env (demo_request ''u2'' 3 (Some ''Mine'') None) demo_world) =
       \<lparr>status = 404, body = Error ''Film not found or permission denied.''\<rparr>
   \<and> fst (update_film demo_env (demo_request ''u2'' 9 (Some ''Mine'') None) demo_world) =
       \<lparr>status = 404, body = Error ''Film not found or permission denied.''\<rparr>
   \<and> fst (delete_film demo_env (demo_request ''u2'' 3 (Some ''Mine'') None) demo_world) =
       \<lparr>status = 404,
        body = Error ''Film not found or you do not have permission to delete it.''\<rparr>
   \<and> fst (delete_film demo_env (demo_request ''u2'' 9 (Some ''Mine'') None) demo_world) =
       \<lparr>status = 404,
        body = Error ''Film not found or you do not have permission to delete it.''\<rparr>
   \<and> films (snd (update_film demo_env (demo_request ''u2'' 3 (Some ''Mine'') None) demo_world)) =
       demo_films
   \<and> films (snd (delete_film demo_env (demo_request ''u2'' 3 (Some ''Mine'') None) demo_world)) =
       demo_films"
proof -
  let ?foreign = "demo_request ''u2'' 3 (Some ''Mine'') None"
  let ?absent = "demo_request ''u2'' 9 (Some ''Mine'') None"
  have a: "authorization ?foreign = Some ''u2''" "authorization ?absent = Some ''u2''"
    by (simp_all add: demo_request_views)
  have b: "''u2'' \<noteq> []" by simp
  have c: "\<forall>r\<in>set (films demo_world). \<not> (film_id r = params_id ?foreign \<and> user_id r = ''u2'')"
    by (simp add: demo_world_def demo_films_def demo_request_views)
  have d: "\<forall>r\<in>set (films demo_world). \<not> (film_id r = params_id ?absent \<and> user_id r = ''u2'')"
    by (simp add: demo_world_def demo_films_def demo_request_views)
  have p: "params_id ?foreign = 3" "params_id ?absent = 9"
    "body_name ?foreign = Some ''Mine''" "body_name ?absent = Some ''Mine''"
    "req_file ?foreign = None" "req_file ?absent = None"
    "select_out demo_env = DbOk" "update_out demo_env = DbOk" "films demo_world = demo_films"
    by (simp_all add: demo_request_views demo_env_def demo_world_def)
  have q: "filter (\<lambda>r. film_id r = 3 \<and> user_id r = ''u2'') (films demo_world) = []"
    "filter (\<lambda>r. film_id r = 9 \<and> user_id r = ''u2'') (films demo_world) = []"
    by (simp_all add: demo_world_def demo_films_def)
  from foreign_or_absent_target_is_404 [OF a(1) b c, of demo_env]
    foreign_or_absent_target_is_404 [OF a(2) b d, of demo_env] q
  show ?thesis
    by (simp add: p)
qed

text \<open>
  C10. An update request with a valid caller, a name and a file, whose target is absent or
  owned by someone else, and whose collaborator calls all go through: the scoped lookup
  finds nothing, so no object is removed (the trace has no removal and every key of the
  bucket is still there); the new image is uploaded all the same, before the scoped
  \<^verbatim>\<open>UPDATE\<close> matches no row and the request is answered with 404. The table is as before,
  so no row carries the address of the new object, provided none did already.
\<close>

theorem update_without_target_orphans_upload:
  assumes "authorization req = Some u" and "u \<noteq> []"
    and "body_name req = Some n" and "n \<noteq> []"
    and "req_file req = Some f"
    and "\<forall>r\<in>set (films w). \<not> (film_id r = params_id req \<and> user_id r = u)"
    and "select_out e = DbOk" and "upload_out e = StOk" and "update_out e = DbOk"
    and "k = storage_key (now e) (originalname f)"
    and "\<forall>r\<in>set (films w). image_url r \<noteq> getPublicUrl e k"
    and "w' = snd (update_film e req w)"
  shows "fst (update_film e req w) =
           \<lparr>status = 404, body = Error ''Film not found or permission denied.''\<rparr>
       \<and> log w' = log w @
            [Query (SelectImageUrl (params_id req) u) DbOk,
             Upload k StOk,
             Query (if getPublicUrl e k = [] then UpdateName n (params_id req) u
                    else UpdateNameImage n (getPublicUrl e k) (params_id req) u) DbOk]
       \<and> bucket w' = (bucket w)(k \<mapsto> \<lparr>content = buffer f, contentType = mimetype f\<rparr>)
       \<and> dom (bucket w) \<subseteq> dom (bucket w')
       \<and> films w' = films w
       \<and> (\<forall>r\<in>set (films w'). image_url r \<noteq> getPublicUrl e k)"
proof -
  from assms(6) have none: "\<forall>r\<in>set (films w). \<not> owned (params_id req) u r"
    by (simp add: owned_def)
  have eq: "update_film e req w =
      (update_not_found,
       w\<lparr>log := log w @
            [Query (SelectImageUrl (params_id req) u) DbOk,
             Upload k StOk,
             Query (if getPublicUrl e k = [] then UpdateName n (params_id req) u
                    else UpdateNameImage n (getPublicUrl e k) (params_id req) u) DbOk],
         bucket := (bucket w)(k \<mapsto> \<lparr>content = buffer f, contentType = mimetype f\<rparr>),
         films := films w\<rparr>)"
    using assms(1-5,7-10) none
    by (simp add: update_film_named [OF assms(3)] update_handler_with_file query_image_url_def
        filter_owned_empty [OF none] update_rows_no_target [OF none] remove_old_def
        storage_upload_def run_update_def query_update_def record_event_def Let_def)
  from eq assms(11,12) show ?thesis
    by (auto simp add: update_not_found_def)
qed

theorem update_without_target_orphans_upload_witness:
  "fst (update_film demo_env (demo_request ''u2'' 3 (Some ''Mine'') (Some demo_file)) demo_world) =
     \<lparr>status = 404, body = Error ''Film not found or permission denied.''\<rparr>
   \<and> log (snd (update_film demo_env (demo_request ''u2'' 3 (Some ''Mine'') (Some demo_file))
        demo_world)) =
     [Query (SelectImageUrl 3 ''u2'') DbOk, Upload ''42-dune.png'' StOk,
      Query (UpdateNameImage ''Mine'' (demo_url ''42-dune.png'') 3 ''u2'') DbOk]
   \<and> bucket (snd (update_film demo_env (demo_request ''u2'' 3 (Some ''Mine'') (Some demo_file))
        demo_world)) ''42-dune.png'' = Some \<lparr>content = ''d'', contentType = ''image/png''\<rparr>
   \<and> films (snd (update_film demo_env (demo_request ''u2'' 3 (Some ''Mine'') (Some demo_file))
        demo_world)) = demo_films"
proof -
  let ?req = "demo_request ''u2'' 3 (Some ''Mine'') (Some demo_file)"
  have a: "authorization ?req = Some ''u2''" by (simp add: demo_request_views)
  have b: "''u2'' \<noteq> []" by simp
  have c: "body_name ?req = Some ''Mine''" by (simp add: demo_request_views)
  have d: "''Mine'' \<noteq> []" by simp
  have f: "req_file ?req = Some demo_file" by (simp add: demo_request_views)
  have g: "\<forall>r\<in>set (films demo_world). \<not> (film_id r = params_id ?req \<and> user_id r = ''u2'')"
    by (simp add: demo_world_def demo_films_def demo_request_views)
  have ok: "select_out demo_env = DbOk" "upload_out demo_env = StOk" "update_out demo_env = DbOk"
    by (simp_all add: demo_env_def)
  have k: "''42-dune.png'' = storage_key (now demo_env) (originalname demo_file)"
    by (simp add: demo_env_def demo_file_def demo_key)
  have h: "\<forall>r\<in>set (films demo_world). image_url r \<noteq> getPublicUrl demo_env ''42-dune.png''"
    by (simp add: demo_world_def demo_films_def demo_env_def demo_url_def)
  have p: "params_id ?req = 3" "getPublicUrl demo_env = demo_url" "log demo_world = []"
    "films demo_world = demo_films" "demo_url ''42-dune.png'' \<noteq> []"
    "buffer demo_file = ''d''" "mimetype demo_file = ''image/png''"
    by (simp_all add: demo_request_views demo_env_def demo_world_def demo_url_def demo_file_def)
  from update_without_target_orphans_upload [OF a b c d f g ok k h refl]
  show ?thesis
    by (simp add: p)
qed

lemma demo_split_pop: "split_pop (demo_url ''30-casa.png'') = ''30-casa.png''"
  by code_simp

text \<open>
  C6 at the input where it fails: the owner updates film 3 with a new image and the storage
  client reports the failure of the removal of the old object in its result. The handler
  drops that result too: the new image is uploaded, the row is updated and the request is
  answered with 200, although a storage operation failed.
\<close>

theorem update_drops_remove_error:
  "remove_out (demo_env\<lparr>remove_out := StError\<rparr>) = StError
   \<and> fst (update_film (demo_env\<lparr>remove_out := StError\<rparr>)
        (demo_request ''u1'' 3 (Some ''Casablanca 2'') (Some demo_file)) demo_world) =
     \<lparr>status = 200,
      body = SuccessData ''Film updated successfully.''
        \<lparr>film_id = 3, name = ''Casablanca 2'', image_url = demo_url ''42-dune.png'',
         user_id = ''u1'', created_at = 30\<rparr>\<rparr>
   \<and> log (snd (update_film (demo_env\<lparr>remove_out := StError\<rparr>)
        (demo_request ''u1'' 3 (Some ''Casablanca 2'') (Some demo_file)) demo_world)) =
     [Query (SelectImageUrl 3 ''u1'') DbOk, Remove ''30-casa.png'' StError,
      Upload ''42-dune.png'' StOk,
      Query (UpdateNameImage ''Casablanca 2'' (demo_url ''42-dune.png'') 3 ''u1'') DbOk]
   \<and> films (snd (update_film (demo_env\<lparr>remove_out := StError\<rparr>)
        (demo_request ''u1'' 3 (Some ''Casablanca 2'') (Some demo_file)) demo_world)) =
     take 2 demo_films @
       [\<lparr>film_id = 3, name = ''Casablanca 2'', image_url = demo_url ''42-dune.png'',
         user_id = ''u1'', created_at = 30\<rparr>]"
proof -
  let ?req = "demo_request ''u1'' 3 (Some ''Casablanca 2'') (Some demo_file)"
  have route: "update_film e ?req demo_world =
      update_handler e (Some ''u1'') 3 (Some ''Casablanca 2'') (Some demo_file) demo_world" for e
    using update_film_named [of ?req "''Casablanca 2''" e demo_world]
    by (simp add: demo_request_views)
  have url: "demo_url ''42-dune.png'' \<noteq> []" by (simp add: demo_url_def)
  show ?thesis
    unfolding route update_handler_with_file
    by (simp add: query_image_url_def remove_old_def
        storage_remove_def storage_upload_def run_update_def query_update_def update_rows_def
        set_columns_def record_event_def owned_def demo_env_def demo_world_def
        demo_films_def demo_file_def demo_key demo_split_pop url Let_def)
qed


section \<open>Deleting\<close>

lemma delete_film_success:
  assumes "status (fst (delete_film e req w)) = 200"
    and "authorization req = Some u"
  shows "u \<noteq> [] \<and> select_out e = DbOk \<and> delete_out e = DbOk \<and> remove_out e \<noteq> StReject
       \<and> filter (owned (params_id req) u) (films w) \<noteq> []"
proof -
  have "status (fst (delete_film e req w)) \<noteq> 200"
    if "u = [] \<or> select_out e \<noteq> DbOk \<or> delete_out e \<noteq> DbOk \<or> remove_out e = StReject
        \<or> filter (owned (params_id req) u) (films w) = []"
    using that assms(2)
    by (cases "select_out e"; cases "delete_out e"; cases "remove_out e";
        cases "filter (owned (params_id req) u) (films w)")
       (simp_all add: delete_film_def query_image_url_def query_delete_def storage_remove_def
          unauthorized_def internal_error_def delete_not_found_def Let_def)
  with assms(1) show ?thesis by auto
qed

lemma delete_film_success_world:
  assumes "authorization req = Some u" and "u \<noteq> []"
    and "select_out e = DbOk" and "delete_out e = DbOk" and "remove_out e \<noteq> StReject"
    and "filter (owned (params_id req) u) (films w) = r # rs"
  shows "films (snd (delete_film e req w)) = filter (\<lambda>r. \<not> owned (params_id req) u r) (films w)"
    and "log (snd (delete_film e req w)) =
           log w @ [Query (SelectImageUrl (params_id req) u) DbOk,
                    Query (DeleteFilm (params_id req) u) DbOk,
                    Remove (basename (image_url r)) (remove_out e)]"
    and "bucket (snd (delete_film e req w)) =
           (if remove_out e = StOk then (bucket w)(basename (image_url r) := None) else bucket w)"
  using assms
  by (cases "remove_out e";
      simp add: delete_film_def query_image_url_def query_delete_def storage_remove_def Let_def)+

lemma no_other_row_with_id:
  assumes "distinct (map film_id rs)" and "r0 \<in> set rs" and "owned i u r0"
    and "r \<in> set rs" and "\<not> owned i u r"
  shows "film_id r \<noteq> i"
proof
  assume "film_id r = i"
  with assms(3) have "film_id r = film_id r0" by (simp add: owned_def)
  moreover from assms(1) have "inj_on film_id (set rs)" by (simp add: distinct_map)
  ultimately have "r = r0" using assms(2,4) by (simp add: inj_on_def)
  with assms(3,5) show False by simp
qed

lemma list_films_response:
  assumes "authorization req = Some u" and "u \<noteq> []" and "select_out e = DbOk"
  shows "fst (list_films e req w) =
           \<lparr>status = 200, body = Rows (map (project u) (order_by_created_at_desc (films w)))\<rparr>"
  using assms by (simp add: list_films_def query_all_def)

lemma set_order_by_created_at_desc [simp]: "set (order_by_created_at_desc rs) = set rs"
  by (simp add: order_by_created_at_desc_def)

lemma basename_final_segment:
  assumes "p \<noteq> []" and "last p \<noteq> CHR ''/''"
  shows "basename p = split_pop p"
proof -
  from assms have "dropWhile (\<lambda>c. c = CHR ''/'') (rev p) = rev p"
    by (cases "rev p") (simp_all add: hd_rev)
  then show ?thesis by (simp add: basename_def)
qed

text \<open>
  The base name of an address that ends in a slash and a key, the key being non-empty and
  free of slashes, is that key.
\<close>

lemma basename_last_segment:
  assumes "key \<noteq> []" and "CHR ''/'' \<notin> set key"
  shows "basename (pre @ ''/'' @ key) = key"
proof -
  from assms(1) have "last key \<in> set key" by (rule last_in_set)
  with assms(2) have "last key \<noteq> CHR ''/''" by auto
  with assms(1) have "basename (pre @ ''/'' @ key) = split_pop (pre @ ''/'' @ key)"
    by (intro basename_final_segment) simp_all
  also have "\<dots> = rev (takeWhile (\<lambda>c. c \<noteq> CHR ''/'') (rev key @ CHR ''/'' # rev pre))"
    by (simp add: split_pop_def)
  also have "takeWhile (\<lambda>c. c \<noteq> CHR ''/'') (rev key @ CHR ''/'' # rev pre) = rev key"
    using assms(2) by (auto simp add: takeWhile_tail)
  finally show ?thesis by simp
qed

text \<open>
  C9. A delete request answered with 200 has made three collaborator calls, in this
  order: the \<^verbatim>\<open>SELECT\<close> scoped to the \<open>id\<close> and the caller, the \<^verbatim>\<open>DELETE\<close> with the same
  scope, and the removal of the object whose key is the base name of the address of the
  first row selected; when the storage client carries the removal out, that key is gone
  from the bucket. The base name is the final path segment of the address: whenever the
  address ends in a slash followed by a non-empty text without slashes, that text is the
  key removed. The table has lost exactly the rows of that scope.
  Afterwards a list request of the same caller, when its query is answered, shows no film
  with that \<open>id\<close> owned by the caller, and none with that \<open>id\<close> at all when the \<open>id\<close>s of
  the table were distinct; a second delete of the same \<open>id\<close> by the same caller, when its
  query is answered, gets 404.
\<close>

theorem delete_reads_deletes_then_removes:
  assumes "status (fst (delete_film e req w)) = 200"
    and "authorization req = Some u"
    and "i = params_id req"
    and "w' = snd (delete_film e req w)"
  shows "(case filter (owned i u) (films w) of
            [] \<Rightarrow> False
          | r # _ \<Rightarrow>
              log w' = log w @ [Query (SelectImageUrl i u) DbOk, Query (DeleteFilm i u) DbOk,
                                Remove (basename (image_url r)) (remove_out e)]
              \<and> (remove_out e = StOk \<longrightarrow> bucket w' = (bucket w)(basename (image_url r) := None))
              \<and> (\<forall>pre key. image_url r = pre @ ''/'' @ key \<and> key \<noteq> []
                     \<and> CHR ''/'' \<notin> set key \<longrightarrow>
                   basename (image_url r) = key))
       \<and> films w' = filter (\<lambda>r. \<not> owned i u r) (films w)
       \<and> (\<forall>e'. select_out e' = DbOk \<longrightarrow>
             fst (list_films e' req w') =
               \<lparr>status = 200, body = Rows (map (project u) (order_by_created_at_desc (films w')))\<rparr>
             \<and> fst (delete_film e' req w') =
               \<lparr>status = 404,
                body = Error ''Film not found or you do not have permission to delete it.''\<rparr>)
       \<and> (\<forall>v\<in>set (map (project u) (order_by_created_at_desc (films w'))).
             \<not> (view_id v = i \<and> mine v))
       \<and> (distinct (map film_id (films w)) \<longrightarrow>
             (\<forall>v\<in>set (map (project u) (order_by_created_at_desc (films w'))). view_id v \<noteq> i))"
proof -
  from delete_film_success [OF assms(1,2)]
  have u: "u \<noteq> []" and ok: "select_out e = DbOk" "delete_out e = DbOk" "remove_out e \<noteq> StReject"
    and some: "filter (owned (params_id req) u) (films w) \<noteq> []"
    by simp_all
  from some obtain r rs where rows: "filter (owned (params_id req) u) (films w) = r # rs"
    by (cases "filter (owned (params_id req) u) (films w)") simp_all
  note world = delete_film_success_world [OF assms(2) u ok rows]
  have films': "films w' = filter (\<lambda>r. \<not> owned i u r) (films w)"
    using world(1) assms(3,4) by simp
  then have gone: "\<forall>r\<in>set (films w'). \<not> owned (params_id req) u r"
    using assms(3) by simp
  have first: "case filter (owned i u) (films w) of
            [] \<Rightarrow> False
          | r # _ \<Rightarrow>
              log w' = log w @ [Query (SelectImageUrl i u) DbOk, Query (DeleteFilm i u) DbOk,
                                Remove (basename (image_url r)) (remove_out e)]
              \<and> (remove_out e = StOk \<longrightarrow> bucket w' = (bucket w)(basename (image_url r) := None))
              \<and> (\<forall>pre key. image_url r = pre @ ''/'' @ key \<and> key \<noteq> []
                     \<and> CHR ''/'' \<notin> set key \<longrightarrow>
                   basename (image_url r) = key)"
  proof -
    have "basename (image_url r) = key"
      if "image_url r = pre @ ''/'' @ key \<and> key \<noteq> [] \<and> CHR ''/'' \<notin> set key" for pre key
      using that basename_last_segment [of key pre] by simp
    with world(2,3) rows assms(3,4) show ?thesis by simp
  qed
  have later: "\<forall>e'. select_out e' = DbOk \<longrightarrow>
             fst (list_films e' req w') =
               \<lparr>status = 200, body = Rows (map (project u) (order_by_created_at_desc (films w')))\<rparr>
             \<and> fst (delete_film e' req w') =
               \<lparr>status = 404,
                body = Error ''Film not found or you do not have permission to delete it.''\<rparr>"
  proof (intro allI impI conjI)
    fix e' :: env
    assume s: "select_out e' = DbOk"
    show "fst (list_films e' req w') =
        \<lparr>status = 200, body = Rows (map (project u) (order_by_created_at_desc (films w')))\<rparr>"
      using assms(2) u s by (rule list_films_response)
    show "fst (delete_film e' req w') =
        \<lparr>status = 404,
         body = Error ''Film not found or you do not have permission to delete it.''\<rparr>"
      using delete_film_no_target(2) [OF assms(2) gone u s] by (simp add: delete_not_found_def)
  qed
  have mine: "\<forall>v\<in>set (map (project u) (order_by_created_at_desc (films w'))).
             \<not> (view_id v = i \<and> mine v)"
    using gone assms(3) by (auto simp add: project_def owned_def)
  have none: "distinct (map film_id (films w)) \<longrightarrow>
             (\<forall>v\<in>set (map (project u) (order_by_created_at_desc (films w'))). view_id v \<noteq> i)"
  proof
    assume d: "distinct (map film_id (films w))"
    from rows have "r \<in> set (filter (owned i u) (films w))"
      using assms(3) by simp
    then have r: "r \<in> set (films w)" "owned i u r" by simp_all
    have "film_id x \<noteq> i" if "x \<in> set (films w')" for x
    proof -
      from that films' have "x \<in> set (films w)" "\<not> owned i u x" by simp_all
      with d r show ?thesis by (rule no_other_row_with_id)
    qed
    then show "\<forall>v\<in>set (map (project u) (order_by_created_at_desc (films w'))). view_id v \<noteq> i"
      by (simp add: project_def)
  qed
  from first films' later mine none show ?thesis by (intro conjI)
qed

lemma demo_basename: "basename (demo_url ''30-casa.png'') = ''30-casa.png''"
  by code_simp


lemma demo_delete:
  "delete_film e (demo_request ''u1'' 3 None None) demo_world =
     (case select_out e of
        DbReject \<Rightarrow>
          (internal_error, record_event (Query (SelectImageUrl 3 ''u1'') DbReject) demo_world)
      | DbOk \<Rightarrow>
          (case delete_out e of
             DbReject \<Rightarrow>
               (internal_error,
                demo_world\<lparr>log := [Query (SelectImageUrl 3 ''u1'') DbOk,
                                    Query (DeleteFilm 3 ''u1'') DbReject]\<rparr>)
           | DbOk \<Rightarrow>
               (case remove_out e of
                  StReject \<Rightarrow>
                    (internal_error,
                     demo_world\<lparr>films := take 2 demo_films,
                       log := [Query (SelectImageUrl 3 ''u1'') DbOk,
                               Query (DeleteFilm 3 ''u1'') DbOk,
                               Remove ''30-casa.png'' StReject]\<rparr>)
                | StError \<Rightarrow>
                    (\<lparr>status = 200, body = SuccessMessage ''Film deleted successfully.''\<rparr>,
                     demo_world\<lparr>films := take 2 demo_films,
                       log := [Query (SelectImageUrl 3 ''u1'') DbOk,
                               Query (DeleteFilm 3 ''u1'') DbOk,
                               Remove ''30-casa.png'' StError]\<rparr>)
                | StOk \<Rightarrow>
                    (\<lparr>status = 200, body = SuccessMessage ''Film deleted successfully.''\<rparr>,
                     demo_world\<lparr>films := take 2 demo_films,
                       log := [Query (SelectImageUrl 3 ''u1'') DbOk,
                               Query (DeleteFilm 3 ''u1'') DbOk,
                               Remove ''30-casa.png'' StOk],
                       bucket := (bucket demo_world)(''30-casa.png'' := None)\<rparr>))))"
  by (cases "select_out e"; cases "delete_out e"; cases "remove_out e")
     (simp_all add: delete_film_def query_image_url_def query_delete_def storage_remove_def
        record_event_def owned_def demo_request_def demo_world_def demo_films_def demo_basename
        Let_def)

theorem delete_reads_deletes_then_removes_witness:
  "status (fst (delete_film demo_env (demo_request ''u1'' 3 None None) demo_world)) = 200
   \<and> log (snd (delete_film demo_env (demo_request ''u1'' 3 None None) demo_world)) =
       [Query (SelectImageUrl 3 ''u1'') DbOk, Query (DeleteFilm 3 ''u1'') DbOk,
        Remove ''30-casa.png'' StOk]
   \<and> films (snd (delete_film demo_env (demo_request ''u1'' 3 None None) demo_world)) =
       take 2 demo_films
   \<and> fst (delete_film demo_env (demo_request ''u1'' 3 None None)
        (snd (delete_film demo_env (demo_request ''u1'' 3 None None) demo_world))) =
       \<lparr>status = 404,
        body = Error ''Film not found or you do not have permission to delete it.''\<rparr>"
proof -
  let ?req = "demo_request ''u1'' 3 None None"
  have s: "status (fst (delete_film demo_env ?req demo_world)) = 200"
    by (simp add: demo_delete demo_env_def)
  have a: "authorization ?req = Some ''u1''" by (simp add: demo_request_views)
  have i: "3 = params_id ?req" by (simp add: demo_request_views)
  have rows: "filter (owned 3 ''u1'') (films demo_world) = [demo_films ! 2]"
    by (simp add: demo_world_def demo_films_def owned_def)
  have url: "image_url (demo_films ! 2) = demo_url ''30-casa.png''"
    by (simp add: demo_films_def)
  have keep: "filter (\<lambda>r. \<not> owned 3 ''u1'' r) (films demo_world) = take 2 demo_films"
    by (simp add: demo_world_def demo_films_def owned_def)
  have e: "select_out demo_env = DbOk" "remove_out demo_env = StOk" "log demo_world = []"
    by (simp_all add: demo_env_def demo_world_def)
  from delete_reads_deletes_then_removes [OF s a i refl]
  have t: "log (snd (delete_film demo_env ?req demo_world)) =
        [Query (SelectImageUrl 3 ''u1'') DbOk, Query (DeleteFilm 3 ''u1'') DbOk,
         Remove (basename (demo_url ''30-casa.png'')) StOk]"
    and segment: "\<forall>pre key. demo_url ''30-casa.png'' = pre @ ''/'' @ key \<and> key \<noteq> []
        \<and> CHR ''/'' \<notin> set key \<longrightarrow> basename (demo_url ''30-casa.png'') = key"
    and table: "films (snd (delete_film demo_env ?req demo_world)) = take 2 demo_films"
    and again: "fst (delete_film demo_env ?req (snd (delete_film demo_env ?req demo_world))) =
        \<lparr>status = 404,
         body = Error ''Film not found or you do not have permission to delete it.''\<rparr>"
    by (simp_all add: rows url keep e)
  have "basename (demo_url ''30-casa.png'') = ''30-casa.png''"
    by (rule segment [rule_format,
          of "''https://store.example/object/public/film-images''" "''30-casa.png''"])
       (simp add: demo_url_def)
  with s t table again show ?thesis by simp
qed

text \<open>
  C8 at the input where it fails: the owner deletes film 3 and the storage client reports
  the failure of \<^verbatim>\<open>remove\<close> in its result. The handler awaits the call and drops the
  result, so the request is answered with 200; the row is gone and the object is still in
  the bucket.
\<close>

theorem delete_drops_remove_error:
  "remove_out (demo_env\<lparr>remove_out := StError\<rparr>) = StError
   \<and> fst (delete_film (demo_env\<lparr>remove_out := StError\<rparr>) (demo_request ''u1'' 3 None None)
        demo_world) =
     \<lparr>status = 200, body = SuccessMessage ''Film deleted successfully.''\<rparr>
   \<and> log (snd (delete_film (demo_env\<lparr>remove_out := StError\<rparr>) (demo_request ''u1'' 3 None None)
        demo_world)) =
     [Query (SelectImageUrl 3 ''u1'') DbOk, Query (DeleteFilm 3 ''u1'') DbOk,
      Remove ''30-casa.png'' StError]
   \<and> films (snd (delete_film (demo_env\<lparr>remove_out := StError\<rparr>)
        (demo_request ''u1'' 3 None None) demo_world)) = take 2 demo_films
   \<and> bucket (snd (delete_film (demo_env\<lparr>remove_out := StError\<rparr>)
        (demo_request ''u1'' 3 None None) demo_world)) ''30-casa.png'' =
     Some \<lparr>content = ''c'', contentType = ''image/png''\<rparr>"
  unfolding demo_delete by (simp add: demo_env_def demo_world_def)


section \<open>Failures that reach the catch block\<close>

text \<open>
  A rejected query, a rejected storage call and an upload whose result carries an error
  end the request with 500, and an update that fails in this way leaves the table as it
  was. The one failure that no handler notices is an error in the result of a removal.
\<close>

lemma list_films_noticed_failure:
  assumes "authorization req = Some u" and "u \<noteq> []" and "select_out e = DbReject"
  shows "fst (list_films e req w) = internal_error"
  using assms by (simp add: list_films_def query_all_def)

lemma delete_film_noticed_failure:
  assumes "authorization req = Some u" and "u \<noteq> []"
    and "select_out e = DbReject
         \<or> (filter (owned (params_id req) u) (films w) \<noteq> []
              \<and> (delete_out e = DbReject \<or> remove_out e = StReject))"
  shows "fst (delete_film e req w) = internal_error"
  using assms
  by (cases "select_out e"; cases "delete_out e"; cases "remove_out e";
      cases "filter (owned (params_id req) u) (films w)")
     (simp_all add: delete_film_def query_image_url_def query_delete_def storage_remove_def
        Let_def)

lemma run_update_rejected:
  assumes "update_out e = DbReject"
  shows "fst (run_update e i u n url w) = internal_error"
  using assms by (simp add: run_update_def query_update_def)

lemma update_film_noticed_failure:
  assumes "authorization req = Some u" and "u \<noteq> []"
    and "body_name req = Some n" and "n \<noteq> []"
    and "req_file req = Some f"
    and "select_out e = DbReject
         \<or> (filter (owned (params_id req) u) (films w) \<noteq> [] \<and> remove_out e = StReject)
         \<or> upload_out e \<noteq> StOk
         \<or> update_out e = DbReject"
  shows "fst (update_film e req w) = internal_error"
    and "films (snd (update_film e req w)) = films w"
  using assms
  by (cases "select_out e"; cases "remove_out e"; cases "upload_out e"; cases "update_out e";
      cases "filter (owned (params_id req) u) (films w)";
      simp add: update_film_named [OF assms(3)] update_handler_with_file query_image_url_def
        remove_old_def storage_remove_def storage_upload_def run_update_rejected
        run_update_films Let_def)+


end
